theory Spec2Isabelle
  imports Complex_Main "HOL-Library.Sublist"
begin

section \<open>Values\<close>

text \<open>
  The calculation engine of \<^verbatim>\<open>prime_cvd_app.py\<close> works on Python numbers. A finite
  Python number (\<^verbatim>\<open>int\<close>, \<^verbatim>\<open>float\<close>) is embedded as a \<^typ>\<open>real\<close> and every
  arithmetic operation on finite numbers is taken exactly (no rounding error). What the
  floating-point machine adds to that picture is written out where the code can observe it:
  \<^item> \<^verbatim>\<open>math.log\<close> raises \<^verbatim>\<open>ValueError\<close> outside its domain,
  \<^item> \<^verbatim>\<open>math.exp\<close> raises \<^verbatim>\<open>OverflowError\<close> when its result exceeds the largest double,
  \<^item> the comparisons of \<^verbatim>\<open>generate_recommendations\<close> are defined on the non-finite
    floats (infinities, NaN) as well.
  \<^item> \<^verbatim>\<open>calculate_ldl_effect\<close> is given a second time on doubles, with the rounding of
    every operation and the special values.
\<close>

datatype py_exception = ValueError string | OverflowError string | TypeError

text \<open>A dynamically typed argument: \<^verbatim>\<open>None\<close>, a finite number, or a string.\<close>

datatype pyval = PyNone | PyNum real | PyStr string

text \<open>A float as a comparison sees it.\<close>

datatype pyfloat = Finite real | PosInf | NegInf | NaN

text \<open>
  What the functions display through Streamlit. \<^verbatim>\<open>st.error(f"prefix{str(e)}")\<close> is kept as
  the prefix and the exception whose text is appended; \<open>StException\<close> is the traceback shown
  for an exception that nothing catches. The exceptions of \<^verbatim>\<open>math\<close> carry their
  text (as CPython up to 3.13 words it).
\<close>

datatype ui_event =
    StError string py_exception
  | StSuccess real
  | StWarning string
  | StMetric string real real
  | StSubheader string
  | StWrite string
  | StException py_exception

section \<open>Constants\<close>

text \<open>\<^verbatim>\<open>LDL_THERAPIES\<close>: a dict from the therapy name to a dict with the key \<^verbatim>\<open>reduction\<close>.\<close>

definition LDL_THERAPIES :: "string \<rightharpoonup> (string \<rightharpoonup> real)" where
  "LDL_THERAPIES =
     [''Atorvastatin 20 mg'' \<mapsto> [''reduction'' \<mapsto> 40],
      ''Atorvastatin 80 mg'' \<mapsto> [''reduction'' \<mapsto> 50],
      ''Rosuvastatin 10 mg'' \<mapsto> [''reduction'' \<mapsto> 45],
      ''Rosuvastatin 20 mg'' \<mapsto> [''reduction'' \<mapsto> 55]]"

text \<open>\<^verbatim>\<open>d.get(k, default)\<close>.\<close>

definition dict_get :: "('k \<rightharpoonup> 'v) \<Rightarrow> 'k \<Rightarrow> 'v \<Rightarrow> 'v" where
  "dict_get d k dflt = (case d k of None \<Rightarrow> dflt | Some v \<Rightarrow> v)"

section \<open>Projected LDL\<close>

text \<open>
  \<^verbatim>\<open>calculate_ldl_reduction(current_ldl, pre_statin, discharge_statin, discharge_add_ons)\<close>.
  The add-ons are the list that the multiselect returns; \<^verbatim>\<open>in\<close> is list membership.
\<close>

definition calculate_ldl_reduction :: "real \<Rightarrow> string \<Rightarrow> string \<Rightarrow> string list \<Rightarrow> real \<times> real" where
  "calculate_ldl_reduction current_ldl pre_statin discharge_statin discharge_add_ons =
     (let statin_reduction = dict_get (dict_get LDL_THERAPIES discharge_statin Map.empty) ''reduction'' 0;
          statin_reduction = (if pre_statin \<noteq> ''None'' then statin_reduction * 0.5 else statin_reduction);
          total_reduction = statin_reduction;
          total_reduction = (if ''Ezetimibe'' \<in> set discharge_add_ons then total_reduction + 20 else total_reduction);
          total_reduction = (if ''PCSK9 inhibitor'' \<in> set discharge_add_ons then total_reduction + 60 else total_reduction);
          total_reduction = (if ''Inclisiran'' \<in> set discharge_add_ons then total_reduction + 50 else total_reduction);
          projected_ldl = current_ldl * (1 - total_reduction / 100)
      in (projected_ldl, total_reduction))"

section \<open>The \<^verbatim>\<open>math\<close> functions and \<^verbatim>\<open>round\<close>\<close>

text \<open>The largest finite double: 53 one bits below \<open>2\<^sup>1\<^sup>0\<^sup>2\<^sup>4\<close>.\<close>

definition max_float :: real where
  "max_float = 2 ^ 1024 - 2 ^ 971"

text \<open>\<^verbatim>\<open>math.log(x)\<close> raises \<^verbatim>\<open>ValueError\<close> for \<open>x \<le> 0\<close>.\<close>

definition math_log :: "real \<Rightarrow> py_exception + real" where
  "math_log x = (if x \<le> 0 then Inl (ValueError ''math domain error'') else Inr (ln x))"

text \<open>\<^verbatim>\<open>math.exp(x)\<close> raises \<^verbatim>\<open>OverflowError\<close> when the result is too large for a double.\<close>

definition math_exp :: "real \<Rightarrow> py_exception + real" where
  "math_exp x = (if max_float < exp x then Inl (OverflowError ''math range error'') else Inr (exp x))"

text \<open>
  \<^verbatim>\<open>round(x, ndigits)\<close> rounds to the nearest multiple of \<open>10\<^sup>-\<^sup>n\<close>, a tie going to the
  even neighbour.
\<close>

definition round_half_even :: "real \<Rightarrow> int" where
  "round_half_even x =
     (let f = \<lfloor>x\<rfloor>; d = x - of_int f
      in if d < 1 / 2 then f else if 1 / 2 < d then f + 1 else if even f then f else f + 1)"

definition py_round :: "real \<Rightarrow> nat \<Rightarrow> real" where
  "py_round x ndigits = of_int (round_half_even (x * 10 ^ ndigits)) / 10 ^ ndigits"

section \<open>Baseline risk\<close>

text \<open>
  The \<^verbatim>\<open>try\<close> block of \<^verbatim>\<open>calculate_smart_risk\<close>: \<open>Inl\<close> is the exception that leaves it.
\<close>

definition smart_risk_body ::
  "real \<Rightarrow> string \<Rightarrow> real \<Rightarrow> real \<Rightarrow> real \<Rightarrow> bool \<Rightarrow> bool \<Rightarrow> real \<Rightarrow> real \<Rightarrow> real \<Rightarrow> py_exception + real" where
  "smart_risk_body age sex sbp total_chol hdl smoker diabetes egfr crp vasc_count =
     (let sex_val = (if sex = ''Male'' then 1 else 0);
          smoking_val = (if smoker then 1 else 0);
          diabetes_val = (if diabetes then 1 else 0)
      in case math_log (crp + 1) of
           Inl e \<Rightarrow> Inl e
         | Inr crp_log \<Rightarrow>
             (let lp = (0.064 * age + 0.34 * sex_val + 0.02 * sbp + 0.25 * total_chol -
                        0.25 * hdl + 0.44 * smoking_val + 0.51 * diabetes_val -
                        0.2 * (egfr / 10) + 0.25 * crp_log + 0.4 * vasc_count)
              in case math_exp (lp - 5.8) of
                   Inl e \<Rightarrow> Inl e
                 | Inr ex \<Rightarrow>
                     (let risk10 = 1 - 0.900 powr ex
                      in Inr (max 1.0 (min 99.0 (py_round (risk10 * 100) 1))))))"

text \<open>
  \<^verbatim>\<open>calculate_smart_risk\<close>: the handler displays the exception and returns \<^verbatim>\<open>None\<close>.
  The result is the list of displayed events and the returned value.
\<close>

definition calculate_smart_risk ::
  "real \<Rightarrow> string \<Rightarrow> real \<Rightarrow> real \<Rightarrow> real \<Rightarrow> bool \<Rightarrow> bool \<Rightarrow> real \<Rightarrow> real \<Rightarrow> real \<Rightarrow> ui_event list \<times> real option" where
  "calculate_smart_risk age sex sbp total_chol hdl smoker diabetes egfr crp vasc_count =
     (case smart_risk_body age sex sbp total_chol hdl smoker diabetes egfr crp vasc_count of
        Inr risk \<Rightarrow> ([], Some risk)
      | Inl e \<Rightarrow> ([StError ''Error calculating risk: '' e], None))"

section \<open>Risk after LDL lowering\<close>

text \<open>
  \<^verbatim>\<open>a - b\<close> on dynamically typed operands: defined on two numbers, \<^verbatim>\<open>TypeError\<close> when an
  operand is \<^verbatim>\<open>None\<close> or a string.
\<close>

fun py_sub :: "pyval \<Rightarrow> pyval \<Rightarrow> py_exception + real" where
  "py_sub (PyNum a) (PyNum b) = Inr (a - b)"
| "py_sub _ _ = Inl TypeError"

text \<open>
  \<^verbatim>\<open>x * f\<close> for a float \<open>f\<close>: a number is multiplied; \<^verbatim>\<open>None\<close> and a string (a sequence
  times a non-integer) raise \<^verbatim>\<open>TypeError\<close>.
\<close>

fun py_mul_float :: "pyval \<Rightarrow> real \<Rightarrow> py_exception + pyval" where
  "py_mul_float (PyNum a) f = Inr (PyNum (a * f))"
| "py_mul_float _ f = Inl TypeError"

text \<open>The \<^verbatim>\<open>try\<close> block of \<^verbatim>\<open>calculate_ldl_effect\<close>.\<close>

definition ldl_effect_body :: "pyval \<Rightarrow> pyval \<Rightarrow> pyval \<Rightarrow> py_exception + pyval" where
  "ldl_effect_body baseline_risk baseline_ldl final_ldl =
     (case py_sub baseline_ldl final_ldl of
        Inl e \<Rightarrow> Inl e
      | Inr ldl_reduction \<Rightarrow>
          (let rrr = min (22 * ldl_reduction) 60
           in py_mul_float baseline_risk (1 - rrr / 100)))"

text \<open>\<^verbatim>\<open>calculate_ldl_effect\<close>: the handler displays the exception and returns \<^verbatim>\<open>baseline_risk\<close>.\<close>

definition calculate_ldl_effect :: "pyval \<Rightarrow> pyval \<Rightarrow> pyval \<Rightarrow> ui_event list \<times> pyval" where
  "calculate_ldl_effect baseline_risk baseline_ldl final_ldl =
     (case ldl_effect_body baseline_risk baseline_ldl final_ldl of
        Inr risk \<Rightarrow> ([], risk)
      | Inl e \<Rightarrow> ([StError ''Error calculating LDL effect: '' e], baseline_risk))"

section \<open>Risk after LDL lowering, on doubles\<close>

text \<open>
  The same function on IEEE doubles, for the questions that the exact arithmetic above
  cannot decide: whether a result is the very float that went in, and what happens at the
  infinities and at NaN. A finite double is a real of the form \<open>m * 2\<^sup>e\<close> with
  \<open>\<bar>m\<bar> < 2\<^sup>5\<^sup>3\<close> and \<open>-1074 \<le> e \<le> 971\<close>; the sign of zero is not distinguished.
\<close>

definition is_double :: "real \<Rightarrow> bool" where
  "is_double x \<longleftrightarrow>
     (\<exists>m e::int. \<bar>m\<bar> < 2 ^ 53 \<and> - 1074 \<le> e \<and> e \<le> 971 \<and> x = of_int m * 2 powr of_int e)"

text \<open>
  Rounding to the nearest double, a tie going to the even mantissa: the exponent of the last
  place is that of the binade of \<open>x\<close>, not below that of the subnormals; a result
  beyond the largest double is an infinity.
\<close>

definition round_double :: "real \<Rightarrow> pyfloat" where
  "round_double x =
     (if x = 0 then Finite 0
      else
        let e = max (\<lfloor>log 2 \<bar>x\<bar>\<rfloor> - 52) (- 1074);
            y = of_int (round_half_even (x / 2 powr of_int e)) * 2 powr of_int e
        in if max_float < \<bar>y\<bar> then (if 0 < x then PosInf else NegInf) else Finite y)"

text \<open>
  \<^verbatim>\<open>a < b\<close>, \<^verbatim>\<open>a - b\<close> and \<^verbatim>\<open>a * b\<close> on floats: the exact result rounded on finite operands,
  the IEEE rules at the special values (NaN propagates, \<^verbatim>\<open>inf - inf\<close> and \<^verbatim>\<open>inf * 0\<close> are
  NaN, every comparison with NaN is false). None of them raises.
\<close>

fun float_lt :: "pyfloat \<Rightarrow> pyfloat \<Rightarrow> bool" where
  "float_lt NaN _ = False"
| "float_lt _ NaN = False"
| "float_lt (Finite a) (Finite b) = (a < b)"
| "float_lt _ NegInf = False"
| "float_lt NegInf _ = True"
| "float_lt PosInf _ = False"
| "float_lt _ PosInf = True"

fun float_sub :: "pyfloat \<Rightarrow> pyfloat \<Rightarrow> pyfloat" where
  "float_sub NaN _ = NaN"
| "float_sub _ NaN = NaN"
| "float_sub (Finite a) (Finite b) = round_double (a - b)"
| "float_sub PosInf PosInf = NaN"
| "float_sub NegInf NegInf = NaN"
| "float_sub PosInf _ = PosInf"
| "float_sub NegInf _ = NegInf"
| "float_sub _ PosInf = NegInf"
| "float_sub _ NegInf = PosInf"

fun float_mul :: "pyfloat \<Rightarrow> pyfloat \<Rightarrow> pyfloat" where
  "float_mul NaN _ = NaN"
| "float_mul _ NaN = NaN"
| "float_mul (Finite a) (Finite b) = round_double (a * b)"
| "float_mul (Finite a) PosInf = (if a = 0 then NaN else if 0 < a then PosInf else NegInf)"
| "float_mul (Finite a) NegInf = (if a = 0 then NaN else if 0 < a then NegInf else PosInf)"
| "float_mul PosInf (Finite b) = (if b = 0 then NaN else if 0 < b then PosInf else NegInf)"
| "float_mul NegInf (Finite b) = (if b = 0 then NaN else if 0 < b then NegInf else PosInf)"
| "float_mul PosInf PosInf = PosInf"
| "float_mul NegInf NegInf = PosInf"
| "float_mul PosInf NegInf = NegInf"
| "float_mul NegInf PosInf = NegInf"

text \<open>
  \<^verbatim>\<open>x / 100\<close>: the divisor is a non-zero constant, so no \<^verbatim>\<open>ZeroDivisionError\<close> arises.
\<close>

fun float_div_100 :: "pyfloat \<Rightarrow> pyfloat" where
  "float_div_100 (Finite a) = round_double (a / 100)"
| "float_div_100 x = x"

text \<open>
  \<^verbatim>\<open>min(a, b)\<close> keeps its first argument unless the second is smaller.
\<close>

definition py_min :: "pyfloat \<Rightarrow> pyfloat \<Rightarrow> pyfloat" where
  "py_min a b = (if float_lt b a then b else a)"

text \<open>
  \<^verbatim>\<open>calculate_ldl_effect\<close> on three floats. No operation of the \<^verbatim>\<open>try\<close> block raises on
  floats, so the handler is not entered and nothing is displayed. The integer constants 22,
  60, 100 and 1 convert to doubles exactly.
\<close>

definition calculate_ldl_effect_float :: "pyfloat \<Rightarrow> pyfloat \<Rightarrow> pyfloat \<Rightarrow> pyfloat" where
  "calculate_ldl_effect_float baseline_risk baseline_ldl final_ldl =
     (let ldl_reduction = float_sub baseline_ldl final_ldl;
          rrr = py_min (float_mul (Finite 22) ldl_reduction) (Finite 60)
      in float_mul baseline_risk (float_sub (Finite 1) (float_div_100 rrr)))"

text \<open>
  The values a float argument can have.
\<close>

fun is_float :: "pyfloat \<Rightarrow> bool" where
  "is_float (Finite x) = is_double x"
| "is_float _ = True"

section \<open>Recommendations\<close>

text \<open>\<^verbatim>\<open>x >= c\<close> for a float \<open>x\<close> and a finite constant \<open>c\<close>: every comparison with NaN is false.\<close>

fun float_ge :: "pyfloat \<Rightarrow> real \<Rightarrow> bool" where
  "float_ge (Finite x) c = (c \<le> x)"
| "float_ge PosInf c = True"
| "float_ge NegInf c = False"
| "float_ge NaN c = False"

text \<open>The three texts; the leading coloured circle is written as its four UTF-8 bytes.\<close>

definition very_high_risk_text :: string where
  "very_high_risk_text = [CHR 0xF0, CHR 0x9F, CHR 0x94, CHR 0xB4] @
     '' Very High Risk: High-intensity statin, PCSK9 inhibitor, SBP <130 mmHg.''"

definition high_risk_text :: string where
  "high_risk_text = [CHR 0xF0, CHR 0x9F, CHR 0x9F, CHR 0xA0] @
     '' High Risk: Moderate-intensity statin, SBP <130 mmHg.''"

definition moderate_risk_text :: string where
  "moderate_risk_text = [CHR 0xF0, CHR 0x9F, CHR 0x9F, CHR 0xA2] @
     '' Moderate Risk: Lifestyle adherence, annual reassessment.''"

definition generate_recommendations :: "pyfloat \<Rightarrow> string" where
  "generate_recommendations final_risk =
     (if float_ge final_risk 30 then very_high_risk_text
      else if float_ge final_risk 20 then high_risk_text
      else moderate_risk_text)"

section \<open>Main logic\<close>

text \<open>The values of the sidebar and treatment widgets in one run of the script.\<close>

record widgets =
  w_age :: real
  w_sex :: string
  w_diabetes :: bool
  w_smoker :: bool
  w_cad :: bool
  w_stroke :: bool
  w_pad :: bool
  w_total_chol :: real
  w_hdl :: real
  w_ldl :: real
  w_sbp :: real
  w_egfr :: real
  w_crp :: real
  w_pre_statin :: string
  w_discharge_statin :: string
  w_discharge_add_ons :: "string list"
  w_calculate_pressed :: bool

text \<open>
  The body of \<^verbatim>\<open>if st.button("Calculate Treatment Impact"):\<close> up to the display of
  the recommendation (the PDF download that follows changes none of the values). The
  numbers given to \<^verbatim>\<open>st.metric\<close> are kept unformatted. A \<^verbatim>\<open>final_risk\<close> that is
  not a number makes the comparison in \<^verbatim>\<open>generate_recommendations\<close> raise.
\<close>

definition treatment_steps :: "real \<Rightarrow> widgets \<Rightarrow> ui_event list" where
  "treatment_steps baseline_risk w =
     (let (projected_ldl, total_reduction) =
            calculate_ldl_reduction (w_ldl w) (w_pre_statin w) (w_discharge_statin w) (w_discharge_add_ons w);
          (shown, final_risk) =
            calculate_ldl_effect (PyNum baseline_risk) (PyNum (w_ldl w)) (PyNum projected_ldl)
      in case final_risk of
           PyNum fr \<Rightarrow>
             shown @
             [StMetric ''Projected LDL-C'' projected_ldl total_reduction,
              StMetric ''Post-Treatment Risk'' fr (baseline_risk - fr),
              StSubheader ''Clinical Recommendations'',
              StWrite (generate_recommendations (Finite fr))]
         | _ \<Rightarrow> shown @ [StException TypeError])"

text \<open>
  The script from the call of \<^verbatim>\<open>calculate_smart_risk\<close> on. \<^verbatim>\<open>if baseline_risk:\<close> tests
  the truth value: \<^verbatim>\<open>None\<close> and zero are false.
\<close>

definition main_logic :: "widgets \<Rightarrow> ui_event list" where
  "main_logic w =
     (let vasc_count = of_bool (w_cad w) + of_bool (w_stroke w) + of_bool (w_pad w);
          (shown, baseline_risk) =
            calculate_smart_risk (w_age w) (w_sex w) (w_sbp w) (w_total_chol w) (w_hdl w)
              (w_smoker w) (w_diabetes w) (w_egfr w) (w_crp w) vasc_count
      in case baseline_risk of
           None \<Rightarrow> shown @ [StWarning ''Please complete all patient data to calculate risk.'']
         | Some risk \<Rightarrow>
             if risk \<noteq> 0 then
               shown @ [StSuccess risk] @
               (if w_calculate_pressed w then treatment_steps risk w else [])
             else shown @ [StWarning ''Please complete all patient data to calculate risk.''])"

section \<open>The therapy catalog and the total reduction as the specification words them\<close>

text \<open>
  \<open>lookup(identifier)\<close>: the configured reduction of a known identifier, 0 for an
  unrecognised identifier and for \<^verbatim>\<open>"None"\<close>.
\<close>

definition spec_catalog_lookup :: "string \<Rightarrow> real" where
  "spec_catalog_lookup identifier =
     (if identifier = ''Atorvastatin 20 mg'' then 40
      else if identifier = ''Atorvastatin 80 mg'' then 50
      else if identifier = ''Rosuvastatin 10 mg'' then 45
      else if identifier = ''Rosuvastatin 20 mg'' then 55
      else 0)"

text \<open>
  The catalog reduction of the prescribed therapy, halved when the current therapy is not
  \<^verbatim>\<open>"None"\<close>, plus 20, 60 and 50 for the three add-ons.
\<close>

definition spec_total_reduction :: "string \<Rightarrow> string \<Rightarrow> string set \<Rightarrow> real" where
  "spec_total_reduction current_therapy prescribed_therapy add_ons =
     (if current_therapy \<noteq> ''None'' then spec_catalog_lookup prescribed_therapy / 2
      else spec_catalog_lookup prescribed_therapy)
     + (if ''Ezetimibe'' \<in> add_ons then 20 else 0)
     + (if ''PCSK9 inhibitor'' \<in> add_ons then 60 else 0)
     + (if ''Inclisiran'' \<in> add_ons then 50 else 0)"

section \<open>Auxiliary notions for the baseline risk\<close>

text \<open>The value of \<^verbatim>\<open>lp\<close> when the logarithm is defined.\<close>

definition linear_predictor ::
  "real \<Rightarrow> string \<Rightarrow> real \<Rightarrow> real \<Rightarrow> real \<Rightarrow> bool \<Rightarrow> bool \<Rightarrow> real \<Rightarrow> real \<Rightarrow> real \<Rightarrow> real" where
  "linear_predictor age sex sbp total_chol hdl smoker diabetes egfr crp vasc_count =
     0.064 * age + 0.34 * (if sex = ''Male'' then 1 else 0) + 0.02 * sbp + 0.25 * total_chol -
     0.25 * hdl + 0.44 * (if smoker then 1 else 0) + 0.51 * (if diabetes then 1 else 0) -
     0.2 * (egfr / 10) + 0.25 * ln (crp + 1) + 0.4 * vasc_count"

text \<open>The returned risk as a function of \<^verbatim>\<open>math.exp(lp - 5.8)\<close>.\<close>

definition clamp_risk :: "real \<Rightarrow> real" where
  "clamp_risk ex = max 1.0 (min 99.0 (py_round ((1 - 0.900 powr ex) * 100) 1))"

section \<open>Projected LDL: the formula and its sign\<close>

lemma catalog_lookup:
  "dict_get (dict_get LDL_THERAPIES s Map.empty) ''reduction'' 0 = spec_catalog_lookup s"
  by (simp add: LDL_THERAPIES_def dict_get_def spec_catalog_lookup_def)

lemma calculate_ldl_reduction_eq:
  "calculate_ldl_reduction l pre dis adds =
     (l * (1 - spec_total_reduction pre dis (set adds) / 100), spec_total_reduction pre dis (set adds))"
  by (simp add: calculate_ldl_reduction_def catalog_lookup spec_total_reduction_def Let_def)

lemma spec_catalog_lookup_bounds: "0 \<le> spec_catalog_lookup s" "spec_catalog_lookup s \<le> 55"
  by (simp_all add: spec_catalog_lookup_def)

text \<open>
  C3: \<^verbatim>\<open>calculate_ldl_reduction\<close> returns the pair \<open>(current_ldl * (1 - t/100), t)\<close>, where
  \<open>t\<close> is the catalog reduction of the prescribed therapy (0 for an unknown identifier and
  for \<^verbatim>\<open>"None"\<close>), halved when the current therapy differs from \<^verbatim>\<open>"None"\<close>, plus 20 for
  Ezetimibe, 60 for the PCSK9 inhibitor and 50 for Inclisiran. For a current LDL of 3.5,
  any current therapy other than \<^verbatim>\<open>"None"\<close>, Rosuvastatin 20 mg prescribed and no add-on,
  the total reduction is 27.5 and the projected LDL 2.5375.
\<close>

theorem calculate_ldl_reduction_formula:
  "calculate_ldl_reduction current_ldl pre_statin discharge_statin discharge_add_ons =
     (current_ldl * (1 - spec_total_reduction pre_statin discharge_statin (set discharge_add_ons) / 100),
      spec_total_reduction pre_statin discharge_statin (set discharge_add_ons))
   \<and> spec_catalog_lookup ''None'' = 0
   \<and> (pre_statin \<noteq> ''None'' \<longrightarrow>
        calculate_ldl_reduction 3.5 pre_statin ''Rosuvastatin 20 mg'' [] = (2.5375, 27.5))"
  by (simp add: calculate_ldl_reduction_eq) (simp add: spec_total_reduction_def spec_catalog_lookup_def)

theorem calculate_ldl_reduction_formula_witness:
  "''Atorvastatin 20 mg'' \<noteq> ''None'' \<and>
   calculate_ldl_reduction 3.5 ''Atorvastatin 20 mg'' ''Rosuvastatin 20 mg'' [] = (2.5375, 27.5)"
  using calculate_ldl_reduction_formula [of 1 "''Atorvastatin 20 mg''" "''None''" "[]"] by simp

text \<open>
  C1, as amended: nothing caps the total reduction. For a positive current LDL the projected
  LDL is non-negative exactly when the total reduction is at most 100; without the PCSK9
  inhibitor and Inclisiran the reduction is at most 75 and the projected LDL is positive.
\<close>

theorem projected_ldl_nonneg_iff:
  assumes "0 < current_ldl"
  shows "(0 \<le> fst (calculate_ldl_reduction current_ldl pre_statin discharge_statin discharge_add_ons)
           \<longleftrightarrow> snd (calculate_ldl_reduction current_ldl pre_statin discharge_statin discharge_add_ons) \<le> 100)
       \<and> (''PCSK9 inhibitor'' \<notin> set discharge_add_ons \<and> ''Inclisiran'' \<notin> set discharge_add_ons \<longrightarrow>
            snd (calculate_ldl_reduction current_ldl pre_statin discharge_statin discharge_add_ons) \<le> 75 \<and>
            0 < fst (calculate_ldl_reduction current_ldl pre_statin discharge_statin discharge_add_ons))"
proof -
  let ?t = "spec_total_reduction pre_statin discharge_statin (set discharge_add_ons)"
  have iff: "0 \<le> current_ldl * (1 - ?t / 100) \<longleftrightarrow> ?t \<le> 100"
    using assms by (simp add: zero_le_mult_iff)
  have small: "?t \<le> 75"
    if "''PCSK9 inhibitor'' \<notin> set discharge_add_ons" "''Inclisiran'' \<notin> set discharge_add_ons"
    using that spec_catalog_lookup_bounds [of discharge_statin] by (simp add: spec_total_reduction_def)
  have pos: "0 < current_ldl * (1 - ?t / 100)" if "?t \<le> 75"
    using assms that by (simp add: zero_less_mult_iff)
  show ?thesis
    using iff small pos by (simp add: calculate_ldl_reduction_eq)
qed

theorem projected_ldl_nonneg_iff_witness:
  "0 < (3.5::real)
   \<and> fst (calculate_ldl_reduction 3.5 ''None'' ''Rosuvastatin 20 mg'' [''Ezetimibe'']) = 0.875
   \<and> snd (calculate_ldl_reduction 3.5 ''None'' ''Rosuvastatin 20 mg'' [''Ezetimibe'']) = 75"
  using projected_ldl_nonneg_iff [of "3.5" "''None''" "''Rosuvastatin 20 mg''" "[''Ezetimibe'']"]
  by (simp add: calculate_ldl_reduction_eq spec_total_reduction_def spec_catalog_lookup_def)

text \<open>
  C1 as stated fails: Rosuvastatin 20 mg on no current therapy with Ezetimibe and the PCSK9
  inhibitor gives a reduction of 135 percent and a projected LDL of -1.225 from 3.5.
\<close>

theorem projected_ldl_negative_counterexample:
  "0 < (3.5::real) \<and>
   calculate_ldl_reduction 3.5 ''None'' ''Rosuvastatin 20 mg'' [''Ezetimibe'', ''PCSK9 inhibitor'']
     = (- 1.225, 135) \<and>
   fst (calculate_ldl_reduction 3.5 ''None'' ''Rosuvastatin 20 mg'' [''Ezetimibe'', ''PCSK9 inhibitor'']) < 0 \<and>
   \<not> snd (calculate_ldl_reduction 3.5 ''None'' ''Rosuvastatin 20 mg'' [''Ezetimibe'', ''PCSK9 inhibitor'']) < 100"
  by (simp add: calculate_ldl_reduction_eq spec_total_reduction_def spec_catalog_lookup_def)

section \<open>Risk after LDL lowering: the formula, the cap, the fallback\<close>

lemma calculate_ldl_effect_num:
  "calculate_ldl_effect (PyNum r) (PyNum b) (PyNum p) = ([], PyNum (r * (1 - min (22 * (b - p)) 60 / 100)))"
  by (simp add: calculate_ldl_effect_def ldl_effect_body_def Let_def)

lemma ldl_effect_body_fails_iff:
  "(\<exists>e. ldl_effect_body br bl fl = Inl e) \<longleftrightarrow> \<not> (\<exists>r b f. br = PyNum r \<and> bl = PyNum b \<and> fl = PyNum f)"
  by (cases br; cases bl; cases fl) (simp_all add: ldl_effect_body_def Let_def)

text \<open>
  C4: on numbers \<^verbatim>\<open>calculate_ldl_effect\<close> displays nothing and returns
  \<open>baseline_risk * (1 - rrr/100)\<close> with \<open>rrr = min (22 * (baseline_ldl - final_ldl)) 60\<close>; \<open>rrr\<close>
  is at most 60, so for a non-negative baseline risk the result is at least 0.4 times it.
\<close>

theorem calculate_ldl_effect_formula:
  "calculate_ldl_effect (PyNum baseline_risk) (PyNum baseline_ldl) (PyNum final_ldl) =
     ([], PyNum (baseline_risk * (1 - min (22 * (baseline_ldl - final_ldl)) 60 / 100)))
   \<and> min (22 * (baseline_ldl - final_ldl)) 60 \<le> 60
   \<and> (0 \<le> baseline_risk \<longrightarrow>
        0.4 * baseline_risk \<le> baseline_risk * (1 - min (22 * (baseline_ldl - final_ldl)) 60 / 100))"
proof -
  let ?rrr = "min (22 * (baseline_ldl - final_ldl)) 60"
  have "0.4 \<le> 1 - ?rrr / 100" by simp
  then have "0 \<le> baseline_risk \<Longrightarrow> baseline_risk * 0.4 \<le> baseline_risk * (1 - ?rrr / 100)"
    by (rule mult_left_mono)
  then show ?thesis by (simp add: calculate_ldl_effect_num mult.commute)
qed

theorem calculate_ldl_effect_formula_witness:
  "(0::real) \<le> 25
   \<and> calculate_ldl_effect (PyNum 25) (PyNum 3.5) (PyNum 1.575) = ([], PyNum 14.4125)
   \<and> (0.4::real) * 25 \<le> 14.4125"
  using calculate_ldl_effect_formula [of 25 "3.5" "1.575"] by simp

text \<open>
  C9: \<^verbatim>\<open>calculate_ldl_effect\<close> returns a value on every input. When its \<^verbatim>\<open>try\<close> block
  raises (which it does exactly when an argument is not a number) it displays the exception and
  returns \<^verbatim>\<open>baseline_risk\<close> as given; a numeric \<^verbatim>\<open>baseline_risk\<close> always yields a number.
\<close>

theorem calculate_ldl_effect_fails_open:
  "(ldl_effect_body baseline_risk baseline_ldl final_ldl = Inl e \<longrightarrow>
      calculate_ldl_effect baseline_risk baseline_ldl final_ldl =
        ([StError ''Error calculating LDL effect: '' e], baseline_risk))
   \<and> ((\<exists>e'. ldl_effect_body baseline_risk baseline_ldl final_ldl = Inl e') \<longleftrightarrow>
        \<not> (\<exists>r b f. baseline_risk = PyNum r \<and> baseline_ldl = PyNum b \<and> final_ldl = PyNum f))
   \<and> (\<exists>x. snd (calculate_ldl_effect (PyNum r) baseline_ldl final_ldl) = PyNum x)"
proof -
  have "\<exists>x. snd (calculate_ldl_effect (PyNum r) baseline_ldl final_ldl) = PyNum x"
    by (cases baseline_ldl; cases final_ldl)
      (simp_all add: calculate_ldl_effect_def ldl_effect_body_def Let_def)
  then show ?thesis
    using ldl_effect_body_fails_iff [of baseline_risk baseline_ldl final_ldl]
    by (simp add: calculate_ldl_effect_def)
qed

theorem calculate_ldl_effect_fails_open_witness:
  "ldl_effect_body (PyNum 25) PyNone (PyNum 2) = Inl TypeError \<and>
   calculate_ldl_effect (PyNum 25) PyNone (PyNum 2) =
     ([StError ''Error calculating LDL effect: '' TypeError], PyNum 25)"
  using calculate_ldl_effect_fails_open [of "PyNum 25" PyNone "PyNum 2" TypeError 25]
  by (simp add: ldl_effect_body_def)

subsection \<open>On doubles\<close>

lemma round_half_even_of_int: "round_half_even (of_int k) = k"
  by (simp add: round_half_even_def)

lemma round_double_zero: "round_double 0 = Finite 0"
  by (simp add: round_double_def)

lemma two_powr_int_diff:
  assumes "e0 \<le> e"
  shows "(2::real) powr of_int e / 2 powr of_int e0 = of_int (2 ^ nat (e - e0))"
proof -
  have "(2::real) powr of_int e / 2 powr of_int e0 = 2 powr (of_int e - of_int e0)"
    by (simp add: powr_diff)
  also have "of_int e - of_int e0 = real (nat (e - e0))" using assms by simp
  also have "(2::real) powr real (nat (e - e0)) = 2 ^ nat (e - e0)" by (simp add: powr_realpow)
  finally show ?thesis by simp
qed

lemma round_double_representable:
  assumes "is_double x"
  shows "round_double x = Finite x"
proof (cases "x = 0")
  case True
  then show ?thesis by (simp add: round_double_zero)
next
  case False
  from assms obtain m e :: int where m: "\<bar>m\<bar> < 2 ^ 53" and e: "- 1074 \<le> e" "e \<le> 971"
    and x: "x = of_int m * 2 powr of_int e"
    unfolding is_double_def by blast
  have pe: "0 < (2::real) powr of_int e" by simp
  have absx: "\<bar>x\<bar> = of_int \<bar>m\<bar> * 2 powr of_int e" by (simp add: x abs_mult)
  have m1: "real_of_int \<bar>m\<bar> \<le> 2 ^ 53 - 1"
  proof -
    from m have "\<bar>m\<bar> \<le> 2 ^ 53 - 1" by simp
    then have "real_of_int \<bar>m\<bar> \<le> real_of_int (2 ^ 53 - 1)" by (rule of_int_le_iff [THEN iffD2])
    then show ?thesis by simp
  qed
  have "\<bar>x\<bar> < 2 ^ 53 * 2 powr of_int e"
    unfolding absx using m1 pe by (intro mult_strict_right_mono) simp_all
  also have "\<dots> = 2 powr (of_int (e + 53))"
    by (simp add: powr_add powr_realpow [symmetric])
  finally have lt: "\<bar>x\<bar> < 2 powr of_int (e + 53)" .
  have xpos: "0 < \<bar>x\<bar>" using False by simp
  have "log 2 \<bar>x\<bar> < of_int (e + 53)"
    using lt xpos by (simp add: log_less_iff)
  then have "\<lfloor>log 2 \<bar>x\<bar>\<rfloor> < e + 53" by (rule floor_less_iff [THEN iffD2])
  then have L: "\<lfloor>log 2 \<bar>x\<bar>\<rfloor> - 52 \<le> e" by simp
  define e0 where "e0 = max (\<lfloor>log 2 \<bar>x\<bar>\<rfloor> - 52) (- 1074)"
  have e0: "e0 \<le> e" using L e by (simp add: e0_def)
  have q: "x / 2 powr of_int e0 = of_int (m * 2 ^ nat (e - e0))"
  proof -
    have "x / 2 powr of_int e0 = of_int m * (2 powr of_int e / 2 powr of_int e0)"
      by (simp add: x)
    also have "\<dots> = of_int m * of_int (2 ^ nat (e - e0))"
      by (simp only: two_powr_int_diff [OF e0])
    finally show ?thesis by simp
  qed
  have y: "of_int (round_half_even (x / 2 powr of_int e0)) * 2 powr of_int e0 = x"
  proof -
    have "of_int (round_half_even (x / 2 powr of_int e0)) * 2 powr of_int e0
        = (x / 2 powr of_int e0) * 2 powr of_int e0"
      unfolding q round_half_even_of_int ..
    also have "\<dots> = x" by simp
    finally show ?thesis .
  qed
  have "2 powr of_int e \<le> (2::real) powr of_int 971" using e by (simp del: of_int_numeral)
  also have "\<dots> = 2 ^ 971" by (simp add: powr_realpow [symmetric])
  finally have pe2: "2 powr of_int e \<le> (2::real) ^ 971" .
  have "\<bar>x\<bar> \<le> (2 ^ 53 - 1) * 2 ^ 971"
    unfolding absx using m1 pe2 by (intro mult_mono) simp_all
  also have "\<dots> = max_float" by (simp add: max_float_def)
  finally have fin: "\<not> max_float < \<bar>x\<bar>" by simp
  show ?thesis
    using False y fin by (simp add: round_double_def Let_def e0_def [symmetric])
qed

lemma is_double_one: "is_double 1"
  unfolding is_double_def by (rule exI [of _ 1], rule exI [of _ 0]) simp

lemma round_double_one: "round_double 1 = Finite 1"
  by (rule round_double_representable [OF is_double_one])

text \<open>
  The rounding is not the identity: \<open>2\<^sup>5\<^sup>3 + 1\<close> is not a double and is rounded to
  \<open>2\<^sup>5\<^sup>3\<close>.
\<close>

lemma round_double_inexact: "round_double 9007199254740993 = Finite 9007199254740992"
proof -
  have l: "\<lfloor>log 2 (9007199254740993::real)\<rfloor> = 53"
    by (subst floor_log_eq_powr_iff) (simp_all add: powr_realpow [symmetric] del: of_int_numeral, simp_all add: powr_realpow)
  have r: "round_half_even (9007199254740993 / 2) = 4503599627370496"
    by (simp add: round_half_even_def Let_def)
  show ?thesis
    by (simp add: round_double_def Let_def l r max_float_def)
qed

lemma is_double_25: "is_double 25"
  unfolding is_double_def by (rule exI [of _ 25], rule exI [of _ 0]) simp

text \<open>
  C7, as amended: on doubles, with equal finite baseline and projected LDL,
  \<^verbatim>\<open>calculate_ldl_effect\<close> returns the very risk it was given, whether that risk is a finite
  double, an infinity or NaN: the difference is 0, so are its product with 22, the minimum
  and the quotient by 100, one minus that is 1, and the product with 1 is rounded to itself.
\<close>

theorem calculate_ldl_effect_float_no_change:
  assumes "is_float r"
  shows "calculate_ldl_effect_float r (Finite ldl) (Finite ldl) = r"
proof -
  have "calculate_ldl_effect_float r (Finite ldl) (Finite ldl) = float_mul r (Finite 1)"
    by (simp add: calculate_ldl_effect_float_def py_min_def round_double_zero round_double_one)
  also have "\<dots> = r"
    using assms by (cases r) (simp_all add: round_double_representable)
  finally show ?thesis .
qed

theorem calculate_ldl_effect_float_no_change_witness:
  "calculate_ldl_effect_float (Finite 25) (Finite 3.5) (Finite 3.5) = Finite 25"
  using calculate_ldl_effect_float_no_change [of "Finite 25" "3.5"] is_double_25 by simp

text \<open>
  C7 as stated fails for an LDL that is not finite: \<^verbatim>\<open>inf - inf\<close> is NaN, the minimum with
  60 keeps it, and the result is NaN whatever the risk was.
\<close>

theorem calculate_ldl_effect_float_inf_counterexample:
  "calculate_ldl_effect_float (Finite 25) PosInf PosInf = NaN \<and> NaN \<noteq> Finite 25"
  by (simp add: calculate_ldl_effect_float_def py_min_def)

section \<open>Recommendation tiers\<close>

lemma texts_distinct:
  "very_high_risk_text \<noteq> high_risk_text" "very_high_risk_text \<noteq> moderate_risk_text"
  "high_risk_text \<noteq> moderate_risk_text"
  by (simp_all add: very_high_risk_text_def high_risk_text_def moderate_risk_text_def)

text \<open>
  C5: on a real risk \<^verbatim>\<open>generate_recommendations\<close> returns one of three distinct texts:
  the very-high-risk text exactly from 30 on, the high-risk text exactly on \<open>[20, 30)\<close>, the
  moderate-risk text exactly below 20; 20 and 30 belong to the higher tier.
\<close>

theorem generate_recommendations_tiers:
  "generate_recommendations (Finite r) \<in> {very_high_risk_text, high_risk_text, moderate_risk_text}
   \<and> (generate_recommendations (Finite r) = very_high_risk_text \<longleftrightarrow> 30 \<le> r)
   \<and> (generate_recommendations (Finite r) = high_risk_text \<longleftrightarrow> 20 \<le> r \<and> r < 30)
   \<and> (generate_recommendations (Finite r) = moderate_risk_text \<longleftrightarrow> r < 20)
   \<and> generate_recommendations (Finite 20) = high_risk_text
   \<and> generate_recommendations (Finite 30) = very_high_risk_text
   \<and> distinct [very_high_risk_text, high_risk_text, moderate_risk_text]"
  using texts_distinct by (auto simp add: generate_recommendations_def)

text \<open>
  C10: for NaN both comparisons are false, and \<^verbatim>\<open>generate_recommendations\<close> returns the
  moderate-risk text.
\<close>

theorem generate_recommendations_nan:
  "generate_recommendations NaN = moderate_risk_text \<and> \<not> float_ge NaN 30 \<and> \<not> float_ge NaN 20"
  by (simp add: generate_recommendations_def)

section \<open>Baseline risk: range, monotonicity, failure\<close>

lemma smart_risk_body_eq:
  "smart_risk_body age sex sbp total_chol hdl smoker diabetes egfr crp vasc_count =
     (if crp + 1 \<le> 0 then Inl (ValueError ''math domain error'')
      else if max_float < exp (linear_predictor age sex sbp total_chol hdl smoker diabetes egfr crp vasc_count - 5.8)
        then Inl (OverflowError ''math range error'')
      else Inr (clamp_risk (exp (linear_predictor age sex sbp total_chol hdl smoker diabetes egfr crp vasc_count - 5.8))))"
  by (simp add: smart_risk_body_def math_log_def math_exp_def linear_predictor_def clamp_risk_def Let_def)

lemma clamp_risk_range: "1 \<le> clamp_risk ex" "clamp_risk ex \<le> 99"
  by (simp_all add: clamp_risk_def)

lemma exp_le_max_float:
  assumes "x \<le> 600"
  shows "exp x \<le> max_float"
proof -
  have "exp x \<le> exp (of_nat 600 * (1::real))" using assms by simp
  also have "\<dots> = exp 1 ^ 600" by (rule exp_of_nat_mult)
  also have "\<dots> \<le> 3 ^ 600" by (rule power_mono) (simp_all add: exp_le)
  also have "\<dots> \<le> max_float" by (simp add: max_float_def)
  finally show ?thesis .
qed

lemma exp_gt_max_float:
  assumes "1024 \<le> x"
  shows "max_float < exp x"
proof -
  have "(2::real) \<le> exp 1" using exp_ge_add_one_self [of 1] by simp
  then have "(2::real) ^ 1024 \<le> exp 1 ^ 1024" by (rule power_mono) simp
  also have "\<dots> = exp (of_nat 1024 * (1::real))" by (rule exp_of_nat_mult [symmetric])
  also have "\<dots> \<le> exp x" using assms by simp
  finally show ?thesis by (simp add: max_float_def)
qed

lemma calculate_smart_risk_returns:
  assumes "- 1 < crp"
    and "linear_predictor age sex sbp total_chol hdl smoker diabetes egfr crp vasc_count - 5.8 \<le> 600"
  shows "calculate_smart_risk age sex sbp total_chol hdl smoker diabetes egfr crp vasc_count =
     ([], Some (clamp_risk (exp (linear_predictor age sex sbp total_chol hdl smoker diabetes egfr crp vasc_count - 5.8))))"
proof -
  have "exp (linear_predictor age sex sbp total_chol hdl smoker diabetes egfr crp vasc_count - 5.8) \<le> max_float"
    using assms(2) by (rule exp_le_max_float)
  moreover have "\<not> crp + 1 \<le> 0" using assms(1) by simp
  ultimately show ?thesis
    by (simp add: calculate_smart_risk_def smart_risk_body_eq)
qed

lemma round_half_even_mono:
  assumes "x \<le> y"
  shows "round_half_even x \<le> round_half_even y"
proof (cases "\<lfloor>x\<rfloor> = \<lfloor>y\<rfloor>")
  case True
  then show ?thesis using assms by (simp add: round_half_even_def Let_def)
next
  case False
  then have "\<lfloor>x\<rfloor> + 1 \<le> \<lfloor>y\<rfloor>" using floor_mono [OF assms] by simp
  moreover have "round_half_even x \<le> \<lfloor>x\<rfloor> + 1" by (simp add: round_half_even_def Let_def)
  moreover have "\<lfloor>y\<rfloor> \<le> round_half_even y" by (simp add: round_half_even_def Let_def)
  ultimately show ?thesis by linarith
qed

lemma py_round_mono: "x \<le> y \<Longrightarrow> py_round x n \<le> py_round y n"
  by (simp add: py_round_def divide_right_mono round_half_even_mono)

lemma clamp_risk_mono:
  assumes "a \<le> b"
  shows "clamp_risk a \<le> clamp_risk b"
proof -
  have "(0.900::real) powr b \<le> 0.900 powr a"
    using assms by (intro powr_mono') simp_all
  then have "(1 - 0.900 powr a) * 100 \<le> (1 - 0.900 powr b) * (100::real)" by simp
  then have "py_round ((1 - 0.900 powr a) * 100) 1 \<le> py_round ((1 - 0.900 powr b) * 100) 1"
    by (rule py_round_mono)
  then show ?thesis unfolding clamp_risk_def by (intro max.mono min.mono) simp_all
qed

lemma linear_predictor_mono:
  assumes "age \<le> age'" "sbp \<le> sbp'" "total_chol \<le> total_chol'" "hdl' \<le> hdl"
    "smoker \<longrightarrow> smoker'" "diabetes \<longrightarrow> diabetes'" "vasc_count \<le> vasc_count'"
  shows "linear_predictor age sex sbp total_chol hdl smoker diabetes egfr crp vasc_count
       \<le> linear_predictor age' sex sbp' total_chol' hdl' smoker' diabetes' egfr crp vasc_count'"
  using assms unfolding linear_predictor_def by auto

lemma linear_predictor_form_bound:
  assumes "age \<le> 100" "sbp \<le> 220" "total_chol \<le> 10" "0.5 \<le> hdl" "15 \<le> egfr"
    "0.1 \<le> crp" "crp \<le> 20" "vasc_count \<le> 3"
  shows "linear_predictor age sex sbp total_chol hdl smoker diabetes egfr crp vasc_count - 5.8 \<le> 600"
proof -
  have "ln (crp + 1) \<le> crp" using assms ln_add_one_self_le_self [of crp] by (simp add: add.commute)
  then have "ln (crp + 1) \<le> 20" using assms by simp
  then show ?thesis using assms unfolding linear_predictor_def by auto
qed

lemma linear_predictor_example:
  "linear_predictor 70 ''Male'' 150 6 0.9 True True 80 2 1 - 5.8 \<le> 600"
  by (rule linear_predictor_form_bound) simp_all

lemma linear_predictor_listed_bound:
  assumes "age \<le> 100" "sbp \<le> 220" "15 \<le> egfr" "0.1 \<le> crp" "vasc_count \<le> 3"
    and "total_chol - hdl + crp \<le> 2000"
  shows "linear_predictor age sex sbp total_chol hdl smoker diabetes egfr crp vasc_count - 5.8 \<le> 600"
proof -
  have "ln (crp + 1) \<le> crp" using assms ln_add_one_self_le_self [of crp] by (simp add: add.commute)
  then show ?thesis using assms unfolding linear_predictor_def by auto
qed

lemma linear_predictor_large:
  "1024 \<le> linear_predictor 65 ''Male'' 140 5000 1 False False 80 2 0 - 5.8"
proof -
  have pos: "0 \<le> ln (3::real)" by simp
  show ?thesis by (simp add: linear_predictor_def) (use pos in linarith)
qed

text \<open>
  C2, as amended: on every profile in the listed ranges (age 30-100, SBP 90-220, eGFR
  15-120, hs-CRP from 0.1, 0 to 3 vascular territories, any sex, smoker and diabetes flag)
  \<^verbatim>\<open>calculate_smart_risk\<close> returns a number between 1 and 99 and displays nothing, unless
  \<^verbatim>\<open>math.exp\<close> overflows: then it displays the \<^verbatim>\<open>OverflowError\<close> and returns \<^verbatim>\<open>None\<close>.
  There is no overflow when total cholesterol minus HDL plus hs-CRP is at most 2000, which
  holds on everything the input form lets through.
\<close>

theorem calculate_smart_risk_range_or_overflow:
  assumes "30 \<le> age" "age \<le> 100" "90 \<le> sbp" "sbp \<le> 220" "15 \<le> egfr" "egfr \<le> 120"
    "0.1 \<le> crp" "0 \<le> vasc_count" "vasc_count \<le> 3"
  shows "((\<exists>risk. calculate_smart_risk age sex sbp total_chol hdl smoker diabetes egfr crp vasc_count
                    = ([], Some risk) \<and> 1 \<le> risk \<and> risk \<le> 99)
          \<or> calculate_smart_risk age sex sbp total_chol hdl smoker diabetes egfr crp vasc_count
               = ([StError ''Error calculating risk: '' (OverflowError ''math range error'')], None))
       \<and> (total_chol - hdl + crp \<le> 2000 \<longrightarrow>
            (\<exists>risk. calculate_smart_risk age sex sbp total_chol hdl smoker diabetes egfr crp vasc_count
                    = ([], Some risk) \<and> 1 \<le> risk \<and> risk \<le> 99))"
proof -
  have dom: "\<not> crp + 1 \<le> 0" using assms by simp
  have either: "(\<exists>risk. calculate_smart_risk age sex sbp total_chol hdl smoker diabetes egfr crp vasc_count
                    = ([], Some risk) \<and> 1 \<le> risk \<and> risk \<le> 99)
          \<or> calculate_smart_risk age sex sbp total_chol hdl smoker diabetes egfr crp vasc_count
               = ([StError ''Error calculating risk: '' (OverflowError ''math range error'')], None)"
    using dom by (simp add: calculate_smart_risk_def smart_risk_body_eq clamp_risk_range)
  have small: "\<exists>risk. calculate_smart_risk age sex sbp total_chol hdl smoker diabetes egfr crp vasc_count
                    = ([], Some risk) \<and> 1 \<le> risk \<and> risk \<le> 99"
    if "total_chol - hdl + crp \<le> 2000"
  proof -
    have "linear_predictor age sex sbp total_chol hdl smoker diabetes egfr crp vasc_count - 5.8 \<le> 600"
      using assms that by (intro linear_predictor_listed_bound)
    moreover have "- 1 < crp" using assms by simp
    ultimately show ?thesis by (simp add: calculate_smart_risk_returns clamp_risk_range)
  qed
  show ?thesis using either small by blast
qed

theorem calculate_smart_risk_range_or_overflow_witness:
  "\<exists>risk. calculate_smart_risk 65 ''Male'' 140 5 1 False False 80 2 0 = ([], Some risk)
           \<and> 1 \<le> risk \<and> risk \<le> 99"
proof -
  have "(5::real) - 1 + 2 \<le> 2000" by simp
  then show ?thesis
    using calculate_smart_risk_range_or_overflow [of 65 140 80 2 0 "''Male''" 5 1 False False]
    by simp
qed

text \<open>
  C2 as stated fails: a total cholesterol of 5000, with every listed input in its range,
  makes \<^verbatim>\<open>math.exp\<close> raise, and the function returns \<^verbatim>\<open>None\<close>.
\<close>

theorem calculate_smart_risk_range_counterexample:
  "(30::real) \<le> 65 \<and> (65::real) \<le> 100 \<and> (90::real) \<le> 140 \<and> (140::real) \<le> 220
   \<and> (15::real) \<le> 80 \<and> (80::real) \<le> 120 \<and> (0.1::real) \<le> 2 \<and> (0::real) \<le> 0 \<and> (0::real) \<le> 3
   \<and> calculate_smart_risk 65 ''Male'' 140 5000 1 False False 80 2 0 =
       ([StError ''Error calculating risk: '' (OverflowError ''math range error'')], None)"
proof -
  have "max_float < exp (linear_predictor 65 ''Male'' 140 5000 1 False False 80 2 0 - 5.8)"
    using linear_predictor_large by (rule exp_gt_max_float)
  then show ?thesis by (simp add: calculate_smart_risk_def smart_risk_body_eq)
qed

text \<open>
  C6: with sex, eGFR and hs-CRP fixed, let age, SBP, total cholesterol and the vascular
  count not decrease, HDL not increase, and the smoker and diabetes flags only go from false
  to true. If \<^verbatim>\<open>calculate_smart_risk\<close> returns a risk on the larger profile, it returns one
  on the smaller profile too, and that one is not larger.
\<close>

theorem calculate_smart_risk_mono:
  assumes "age \<le> age'" "sbp \<le> sbp'" "total_chol \<le> total_chol'" "hdl' \<le> hdl"
    "smoker \<longrightarrow> smoker'" "diabetes \<longrightarrow> diabetes'" "vasc_count \<le> vasc_count'"
    and "snd (calculate_smart_risk age' sex sbp' total_chol' hdl' smoker' diabetes' egfr crp vasc_count') = Some risk'"
  shows "\<exists>risk. snd (calculate_smart_risk age sex sbp total_chol hdl smoker diabetes egfr crp vasc_count) = Some risk
           \<and> risk \<le> risk'"
proof -
  let ?lp = "linear_predictor age sex sbp total_chol hdl smoker diabetes egfr crp vasc_count"
  let ?lp' = "linear_predictor age' sex sbp' total_chol' hdl' smoker' diabetes' egfr crp vasc_count'"
  have le: "exp (?lp - 5.8) \<le> exp (?lp' - 5.8)"
    using linear_predictor_mono [OF assms(1-7)] by simp
  from assms(8) have dom: "\<not> crp + 1 \<le> 0" and fin: "\<not> max_float < exp (?lp' - 5.8)"
    and val: "risk' = clamp_risk (exp (?lp' - 5.8))"
    by (auto simp add: calculate_smart_risk_def smart_risk_body_eq split: if_splits)
  from fin le have "\<not> max_float < exp (?lp - 5.8)" by linarith
  with dom have "snd (calculate_smart_risk age sex sbp total_chol hdl smoker diabetes egfr crp vasc_count)
      = Some (clamp_risk (exp (?lp - 5.8)))"
    by (simp add: calculate_smart_risk_def smart_risk_body_eq)
  moreover have "clamp_risk (exp (?lp - 5.8)) \<le> risk'"
    unfolding val using le by (rule clamp_risk_mono)
  ultimately show ?thesis by simp
qed

theorem calculate_smart_risk_mono_witness:
  "\<exists>risk risk'.
     snd (calculate_smart_risk 70 ''Male'' 150 6 0.9 True True 80 2 1) = Some risk' \<and>
     snd (calculate_smart_risk 65 ''Male'' 140 5 1 False False 80 2 0) = Some risk \<and>
     risk \<le> risk'"
proof -
  have "\<exists>risk'. snd (calculate_smart_risk 70 ''Male'' 150 6 0.9 True True 80 2 1) = Some risk'"
    using calculate_smart_risk_returns [OF _ linear_predictor_example] by simp
  then obtain risk' where
    r': "snd (calculate_smart_risk 70 ''Male'' 150 6 0.9 True True 80 2 1) = Some risk'" ..
  have "\<exists>risk. snd (calculate_smart_risk 65 ''Male'' 140 5 1 False False 80 2 0) = Some risk
           \<and> risk \<le> risk'"
    by (rule calculate_smart_risk_mono [OF _ _ _ _ _ _ _ r']) simp_all
  with r' show ?thesis by blast
qed

lemma main_logic_on_failure:
  assumes "smart_risk_body (w_age w) (w_sex w) (w_sbp w) (w_total_chol w) (w_hdl w)
              (w_smoker w) (w_diabetes w) (w_egfr w) (w_crp w)
              (of_bool (w_cad w) + of_bool (w_stroke w) + of_bool (w_pad w)) = Inl e"
  shows "main_logic w =
     [StError ''Error calculating risk: '' e,
      StWarning ''Please complete all patient data to calculate risk.'']"
  using assms by (simp add: main_logic_def calculate_smart_risk_def Let_def)

text \<open>
  C8, as amended: whenever the \<^verbatim>\<open>try\<close> block of \<^verbatim>\<open>calculate_smart_risk\<close> leaves the finite
  numbers, by a logarithm out of its domain (hs-CRP at most -1) or by an overflow of
  \<^verbatim>\<open>math.exp\<close>, the function displays \<^verbatim>\<open>Error calculating risk: \<close> followed by the text of
  the exception and returns \<^verbatim>\<open>None\<close>; the script then displays the warning and nothing else,
  so that no step of the treatment calculation runs, whether the button is pressed or not.
\<close>

theorem smart_risk_failure_skips_treatment:
  assumes "w_crp w \<le> - 1 \<or>
     max_float < exp (linear_predictor (w_age w) (w_sex w) (w_sbp w) (w_total_chol w) (w_hdl w)
              (w_smoker w) (w_diabetes w) (w_egfr w) (w_crp w)
              (of_bool (w_cad w) + of_bool (w_stroke w) + of_bool (w_pad w)) - 5.8)"
  shows "\<exists>e. (e = ValueError ''math domain error'' \<or> e = OverflowError ''math range error'')
       \<and> calculate_smart_risk (w_age w) (w_sex w) (w_sbp w) (w_total_chol w) (w_hdl w)
              (w_smoker w) (w_diabetes w) (w_egfr w) (w_crp w)
              (of_bool (w_cad w) + of_bool (w_stroke w) + of_bool (w_pad w))
           = ([StError ''Error calculating risk: '' e], None)
       \<and> main_logic w =
           [StError ''Error calculating risk: '' e,
            StWarning ''Please complete all patient data to calculate risk.'']"
proof -
  let ?body = "smart_risk_body (w_age w) (w_sex w) (w_sbp w) (w_total_chol w) (w_hdl w)
              (w_smoker w) (w_diabetes w) (w_egfr w) (w_crp w)
              (of_bool (w_cad w) + of_bool (w_stroke w) + of_bool (w_pad w))"
  let ?over = "max_float < exp (linear_predictor (w_age w) (w_sex w) (w_sbp w) (w_total_chol w) (w_hdl w)
              (w_smoker w) (w_diabetes w) (w_egfr w) (w_crp w)
              (of_bool (w_cad w) + of_bool (w_stroke w) + of_bool (w_pad w)) - 5.8)"
  have eq: "?body =
     (if w_crp w + 1 \<le> 0 then Inl (ValueError ''math domain error'')
      else if ?over then Inl (OverflowError ''math range error'')
      else Inr (clamp_risk (exp (linear_predictor (w_age w) (w_sex w) (w_sbp w) (w_total_chol w) (w_hdl w)
              (w_smoker w) (w_diabetes w) (w_egfr w) (w_crp w)
              (of_bool (w_cad w) + of_bool (w_stroke w) + of_bool (w_pad w)) - 5.8))))"
    by (rule smart_risk_body_eq)
  have "\<exists>e. ?body = Inl e
      \<and> (e = ValueError ''math domain error'' \<or> e = OverflowError ''math range error'')"
  proof (cases "w_crp w + 1 \<le> 0")
    case True
    then have "?body = Inl (ValueError ''math domain error'')" by (simp only: eq if_True)
    then show ?thesis by blast
  next
    case False
    then have "\<not> w_crp w \<le> - 1" by simp
    with assms have ?over by blast
    with False have "?body = Inl (OverflowError ''math range error'')"
      by (simp only: eq if_True if_False)
    then show ?thesis by blast
  qed
  then obtain e where body: "?body = Inl e"
    and e: "e = ValueError ''math domain error'' \<or> e = OverflowError ''math range error''"
    by blast
  show ?thesis
    using main_logic_on_failure [OF body] e by (simp add: calculate_smart_risk_def body)
qed

theorem smart_risk_failure_skips_treatment_witness:
  "main_logic
     \<lparr>w_age = 65, w_sex = ''Male'', w_diabetes = False, w_smoker = False,
      w_cad = False, w_stroke = False, w_pad = False,
      w_total_chol = 5, w_hdl = 1, w_ldl = 3.5, w_sbp = 140, w_egfr = 80, w_crp = - 2,
      w_pre_statin = ''None'', w_discharge_statin = ''Rosuvastatin 10 mg'',
      w_discharge_add_ons = [], w_calculate_pressed = True\<rparr>
   = [StError ''Error calculating risk: '' (ValueError ''math domain error''),
      StWarning ''Please complete all patient data to calculate risk.'']
   \<and> main_logic
     \<lparr>w_age = 65, w_sex = ''Male'', w_diabetes = False, w_smoker = False,
      w_cad = False, w_stroke = False, w_pad = False,
      w_total_chol = 5000, w_hdl = 1, w_ldl = 3.5, w_sbp = 140, w_egfr = 80, w_crp = 2,
      w_pre_statin = ''None'', w_discharge_statin = ''Rosuvastatin 10 mg'',
      w_discharge_add_ons = [], w_calculate_pressed = True\<rparr>
   = [StError ''Error calculating risk: '' (OverflowError ''math range error''),
      StWarning ''Please complete all patient data to calculate risk.'']"
proof -
  have big: "max_float < exp (linear_predictor 65 ''Male'' 140 5000 1 False False 80 2 0 - 5.8)"
    using linear_predictor_large by (rule exp_gt_max_float)
  show ?thesis
    using smart_risk_failure_skips_treatment
      [of "\<lparr>w_age = 65, w_sex = ''Male'', w_diabetes = False, w_smoker = False,
        w_cad = False, w_stroke = False, w_pad = False,
        w_total_chol = 5, w_hdl = 1, w_ldl = 3.5, w_sbp = 140, w_egfr = 80, w_crp = - 2,
        w_pre_statin = ''None'', w_discharge_statin = ''Rosuvastatin 10 mg'',
        w_discharge_add_ons = [], w_calculate_pressed = True\<rparr>"]
      smart_risk_failure_skips_treatment
      [of "\<lparr>w_age = 65, w_sex = ''Male'', w_diabetes = False, w_smoker = False,
        w_cad = False, w_stroke = False, w_pad = False,
        w_total_chol = 5000, w_hdl = 1, w_ldl = 3.5, w_sbp = 140, w_egfr = 80, w_crp = 2,
        w_pre_statin = ''None'', w_discharge_statin = ''Rosuvastatin 10 mg'',
        w_discharge_add_ons = [], w_calculate_pressed = True\<rparr>"]
      big
    by (auto simp add: calculate_smart_risk_def smart_risk_body_eq)
qed

text \<open>
  C8 as stated fails: for an hs-CRP of -2 the only things that leave the function are the
  value \<^verbatim>\<open>None\<close> and a displayed message that is the prefix and \<^verbatim>\<open>math domain error\<close>;
  the name of the input is nowhere in it.
\<close>

theorem smart_risk_error_counterexample:
  "calculate_smart_risk 65 ''Male'' 140 5 1 False False 80 (- 2) 0 =
     ([StError ''Error calculating risk: '' (ValueError ''math domain error'')], None)
   \<and> \<not> sublist ''crp'' (''Error calculating risk: '' @ ''math domain error'')"
proof -
  have "\<not> sublist ''crp'' (''Error calculating risk: '' @ ''math domain error'')"
    by code_simp
  then show ?thesis by (simp add: calculate_smart_risk_def smart_risk_body_eq)
qed

end
